theory Spec2Isabelle
  imports Main
begin

section \<open>The MDS message processor (agent/message/processor/processor.go)\<close>

text \<open>
  A shallow embedding of the package \<open>processor\<close>: its constants, the constructor
  \<open>NewProcessor\<close>, the reply path \<open>processSendReply\<close> and the two factory
  variables \<open>newMdsService\<close> and \<open>newStopPolicy\<close>.

  Go values are modelled as follows. A Go \<open>string\<close> is a \<open>string\<close>; an \<open>error\<close> is an
  optional message (\<open>None\<close> is \<open>nil\<close>); \<open>int\<close> is \<open>int\<close>; a \<open>time.Duration\<close> is the
  \<open>int\<close> count of nanoseconds, wrapped to 64 bits where the source multiplies. Objects that
  the source shares by pointer (worker pools, the stop policy) live in a store and are named
  by their index there. Everything the processor does to the outside (log lines, replies
  handed to the transport) is appended to a trace in the state.
\<close>

subsection \<open>Constants\<close>

type_synonym TopicPrefix = string

definition SendCommandTopicPrefix :: TopicPrefix where
  "SendCommandTopicPrefix = ''aws.ssm.sendCommand.''"

definition CancelCommandTopicPrefix :: TopicPrefix where
  "CancelCommandTopicPrefix = ''aws.ssm.cancelCommand.''"

definition CancelWorkersLimit :: int where
  "CancelWorkersLimit = 3"

definition name :: string where
  "name = ''MessageProcessor''"

definition pollMessageFrequencyMinutes :: int where
  "pollMessageFrequencyMinutes = 15"

text \<open>The units of \<open>time.Duration\<close>, in nanoseconds.\<close>

type_synonym Duration = int

definition Millisecond :: Duration where
  "Millisecond = 1000000"

definition Second :: Duration where
  "Second = 1000 * Millisecond"

definition Minute :: Duration where
  "Minute = 60 * Second"

definition hardStopTimeout :: Duration where
  "hardStopTimeout = Second * 4"

definition stopPolicyErrorThreshold :: int where
  "stopPolicyErrorThreshold = 10"

text \<open>Go's \<open>strings.HasPrefix\<close>: \<open>len(s) >= len(prefix) && s[0:len(prefix)] == prefix\<close>.\<close>

definition HasPrefix :: "string \<Rightarrow> string \<Rightarrow> bool" where
  "HasPrefix s pre = (length pre \<le> length s \<and> take (length pre) s = pre)"

text \<open>A signed 64-bit result of Go's integer arithmetic: the value modulo \<open>2^64\<close>, read as
  two's complement.\<close>

definition wrap64 :: "int \<Rightarrow> int" where
  "wrap64 x = (x + 9223372036854775808) mod 18446744073709551616 - 9223372036854775808"

subsection \<open>Configuration and collaborators\<close>

type_synonym error = string

record OsConfig =
  Lang :: string
  OsName :: string
  OsVersion :: string

record AgentConfig =
  AgentName :: string
  AgentVersion :: string
  Region :: string
  OrchestrationRootDir :: string

record MdsConfig =
  CommandWorkersLimit :: int
  StopTimeoutMillis :: int
  Endpoint :: string

record SsmagentConfig =
  Os :: OsConfig
  Agent :: AgentConfig
  Mds :: MdsConfig

record AgentInfo =
  InfoLang :: string
  InfoName :: string
  InfoVersion :: string
  InfoOs :: string
  InfoOsVersion :: string

record AgentConfiguration =
  agentInfo :: AgentInfo
  InstanceID :: string

text \<open>A concrete configuration, for evaluating the definitions: \<open>workers\<close> is
  \<open>Mds.CommandWorkersLimit\<close> and \<open>millis\<close> is \<open>Mds.StopTimeoutMillis\<close>.\<close>

definition exampleConfig :: "int \<Rightarrow> int \<Rightarrow> SsmagentConfig" where
  "exampleConfig workers millis =
     \<lparr>Os = \<lparr>Lang = ''en-US'', OsName = ''linux'', OsVersion = ''1''\<rparr>,
      Agent = \<lparr>AgentName = ''amazon-ssm-agent'', AgentVersion = ''1.0'',
               Region = ''us-east-1'', OrchestrationRootDir = ''orchestration''\<rparr>,
      Mds = \<lparr>CommandWorkersLimit = workers, StopTimeoutMillis = millis,
             Endpoint = ''''\<rparr>\<rparr>"

text \<open>\<open>service.NewService(region, endpoint, creds, connectionTimeout)\<close>: the service object
  is the record of what it was built from.\<close>

record Service =
  svcRegion :: string
  svcEndpoint :: string
  svcCreds :: "string option"
  svcConnectionTimeout :: Duration

definition NewService :: "string \<Rightarrow> string \<Rightarrow> string option \<Rightarrow> Duration \<Rightarrow> Service" where
  "NewService region endpoint creds connectionTimeout =
     \<lparr>svcRegion = region, svcEndpoint = endpoint, svcCreds = creds,
      svcConnectionTimeout = connectionTimeout\<rparr>"

text \<open>\<open>newMdsService\<close>: the conversion \<open>time.Duration(config.Mds.StopTimeoutMillis)\<close> and
  the product with \<open>time.Millisecond\<close> are 64-bit.\<close>

definition newMdsService :: "SsmagentConfig \<Rightarrow> Service" where
  "newMdsService config =
     (let connectionTimeout = wrap64 (wrap64 (StopTimeoutMillis (Mds config)) * Millisecond)
      in NewService (Region (Agent config)) (Endpoint (Mds config)) None connectionTimeout)"

subsection \<open>The stop policy (package sdkutil)\<close>

text \<open>
  Modelled from the spec: the type \<open>sdkutil.StopPolicy\<close>, its constructor
  \<open>sdkutil.NewStopPolicy\<close> and \<open>sdkutil.HandleAwsError\<close> are not in this file of the
  repository. The state is a consecutive-error counter and an expiry timestamp, beside
  the name and the threshold the constructor is given; the window is 15 minutes.
  \<open>RecordSuccess\<close> resets the counter and clears any open window. \<open>RecordFailure\<close>
  increments the counter and, when the counter reaches the threshold, opens the unhealthy
  window until \<open>now + window\<close>. \<open>IsHealthy\<close> is false while the window is open. Once
  \<open>now\<close> has passed the end of the window the policy is reset to healthy, with the counter
  zeroed, whatever is called next: \<open>expire\<close> is that reset, and both \<open>RecordFailure\<close> and
  \<open>IsHealthy\<close> start with it. A transport error handed to \<open>HandleAwsError\<close> is recorded
  as a failure.
\<close>

record StopPolicy =
  policyName :: string
  MaximumErrorThreshold :: int
  window :: Duration
  errorCount :: int
  unhealthyUntil :: "int option"

definition stopPolicyWindow :: Duration where
  "stopPolicyWindow = 15 * Minute"

definition RecordSuccess :: "StopPolicy \<Rightarrow> StopPolicy" where
  "RecordSuccess p = p\<lparr>errorCount := 0, unhealthyUntil := None\<rparr>"

definition expire :: "int \<Rightarrow> StopPolicy \<Rightarrow> StopPolicy" where
  "expire now p =
     (case unhealthyUntil p of
        None \<Rightarrow> p
      | Some e \<Rightarrow> if e < now then p\<lparr>errorCount := 0, unhealthyUntil := None\<rparr> else p)"

definition RecordFailure :: "int \<Rightarrow> StopPolicy \<Rightarrow> StopPolicy" where
  "RecordFailure now p =
     (let q = expire now p;
          c = errorCount q + 1
      in if c = MaximumErrorThreshold q
         then q\<lparr>errorCount := c, unhealthyUntil := Some (now + window q)\<rparr>
         else q\<lparr>errorCount := c\<rparr>)"


text \<open>A run of consecutive \<open>RecordFailure\<close> calls, made at the times \<open>ts\<close>.\<close>

definition failures :: "int list \<Rightarrow> StopPolicy \<Rightarrow> StopPolicy" where
  "failures ts p = foldl (\<lambda>q t. RecordFailure t q) p ts"

subsection \<open>Worker pools (package task)\<close>

text \<open>\<open>task.NewPool(log, maxWorkers, cancelWaitDuration, clock)\<close>: a pool is the record of
  what it was built with, and the jobs it runs: each with its identifier and the time it
  still needs. A new pool runs nothing.\<close>

record Pool =
  maxWorkers :: int
  cancelWaitDuration :: Duration
  jobs :: "(string \<times> Duration) list"

subsection \<open>The state\<close>

datatype LogEntry =
    LogErrorf string "error option"
  | LogError string error
  | LogInfo string string

text \<open>The state the processor runs in: the log lines written so far, the calls made to the
  transport's \<open>SendReply\<close> (message identifier and payload), the store of stop policies
  and the store of worker pools (a pointer is an index), and the clock.\<close>

record World =
  logs :: "LogEntry list"
  replies :: "(string \<times> string) list"
  policies :: "StopPolicy list"
  pools :: "Pool list"
  clock :: int

definition NewStopPolicy :: "string \<Rightarrow> int \<Rightarrow> World \<Rightarrow> nat \<times> World" where
  "NewStopPolicy nm errorThreshold w =
     (length (policies w),
      w\<lparr>policies := policies w @
          [\<lparr>policyName = nm, MaximumErrorThreshold = errorThreshold,
            window = stopPolicyWindow, errorCount = 0, unhealthyUntil = None\<rparr>]\<rparr>)"

definition HandleAwsError :: "error \<Rightarrow> nat \<Rightarrow> World \<Rightarrow> World" where
  "HandleAwsError err stopPolicy w =
     w\<lparr>policies := (policies w)[stopPolicy := RecordFailure (clock w) (policies w ! stopPolicy)]\<rparr>"

definition NewPool :: "int \<Rightarrow> Duration \<Rightarrow> World \<Rightarrow> nat \<times> World" where
  "NewPool maxParallel cancelWait w =
     (length (pools w),
      w\<lparr>pools := pools w @
          [\<lparr>maxWorkers = maxParallel, cancelWaitDuration = cancelWait, jobs = []\<rparr>]\<rparr>)"

definition newStopPolicy :: "World \<Rightarrow> nat \<times> World" where
  "newStopPolicy w = NewStopPolicy name stopPolicyErrorThreshold w"

text \<open>The context: the tags added by \<open>With\<close> and the application configuration.\<close>

record Context =
  ctxTags :: "string list"
  ctxAppConfig :: SsmagentConfig

definition With :: "Context \<Rightarrow> string \<Rightarrow> Context" where
  "With ctx tag = ctx\<lparr>ctxTags := ctxTags ctx @ [tag]\<rparr>"

text \<open>
  The collaborators outside this file, as parameters: \<open>platform.InstanceID\<close> (its two
  results), the two constants of \<open>appconfig\<close>, \<open>path.Join\<close>, the three functions of
  \<open>parser\<close> that build payloads, \<open>json.Marshal\<close> (an error or the bytes),
  \<open>jsonutil.Indent\<close>, and the transport's \<open>SendReply\<close>. The types \<open>'res\<close>, \<open>'st\<close> and
  \<open>'p\<close> are those of the plugin results, the runtime statuses and the reply payload.
\<close>

record ('res, 'st, 'p) Env =
  platformInstanceID :: "string \<times> error option"
  DefaultDataStorePath :: string
  DefaultCommandRootDirName :: string
  pathJoin :: "string list \<Rightarrow> string"
  PrepareRuntimeStatuses :: "'res \<Rightarrow> 'st"
  PrepareReplyPayload :: "string \<Rightarrow> 'st \<Rightarrow> int \<Rightarrow> AgentInfo \<Rightarrow> 'p"
  PrepareReplyPayloadToUpdateDocumentStatus :: "AgentInfo \<Rightarrow> string \<Rightarrow> string \<Rightarrow> 'p"
  jsonMarshal :: "'p \<Rightarrow> error + string"
  jsonIndent :: "string \<Rightarrow> string"
  SendReply :: "Service \<Rightarrow> string \<Rightarrow> string \<Rightarrow> error option"

subsection \<open>Sending a reply\<close>

text \<open>
  \<open>processSendReply\<close>. \<open>json.Marshal\<close> returns nil bytes beside an error, and
  \<open>string(nil)\<close> is the empty string. The error of the marshalling is logged and the
  function goes on: there is no \<open>return\<close> in that branch. The call of the transport is
  recorded in \<open>replies\<close>.
\<close>

definition processSendReply ::
  "('res, 'st, 'p) Env \<Rightarrow> string \<Rightarrow> Service \<Rightarrow> 'p \<Rightarrow> nat \<Rightarrow> World \<Rightarrow> World" where
  "processSendReply env messageID mdsService payloadDoc processorStopPolicy w =
     (let (payloadB, err) = (case jsonMarshal env payloadDoc of
                               Inl e \<Rightarrow> ([], Some e)
                             | Inr b \<Rightarrow> (b, None));
          w1 = (case err of
                  Some e \<Rightarrow> w\<lparr>logs := logs w @ [LogError ''could not marshal reply payload!'' e]\<rparr>
                | None \<Rightarrow> w);
          payload = payloadB;
          w2 = w1\<lparr>logs := logs w1 @ [LogInfo ''Sending reply '' (jsonIndent env payload)]\<rparr>;
          err2 = SendReply env mdsService messageID payload;
          w3 = w2\<lparr>replies := replies w2 @ [(messageID, payload)]\<rparr>
      in case err2 of
           Some e \<Rightarrow> HandleAwsError e processorStopPolicy w3
         | None \<Rightarrow> w3)"

subsection \<open>The processor\<close>

text \<open>
  The fields of \<open>Processor\<close> that \<open>NewProcessor\<close> computes from its inputs. The closures
  are functions on the state. Not modelled, as nothing below reads them: \<open>stopSignal\<close> (a
  fresh channel), \<open>pluginRunner\<close> and \<open>persistData\<close> (calls into other packages) and
  \<open>messagePollJob\<close> (left nil).
\<close>

record ('res, 'p) Processor =
  pContext :: Context
  pConfig :: AgentConfiguration
  pService :: Service
  sendCommandPool :: nat
  cancelCommandPool :: nat
  buildReply :: "string \<Rightarrow> 'res \<Rightarrow> World \<Rightarrow> 'p"
  sendResponse :: "string \<Rightarrow> string \<Rightarrow> 'res \<Rightarrow> World \<Rightarrow> World"
  sendDocLevelResponse :: "string \<Rightarrow> string \<Rightarrow> string \<Rightarrow> World \<Rightarrow> World"
  orchestrationRootDir :: string
  processorStopPolicy :: nat

definition NewProcessor ::
  "('res, 'st, 'p) Env \<Rightarrow> Context \<Rightarrow> World \<Rightarrow> ('res, 'p) Processor option \<times> World" where
  "NewProcessor env ctx w =
     (let messageContext = With ctx (''['' @ name @ '']'');
          config = ctxAppConfig messageContext;
          (instanceID, err) = platformInstanceID env
      in if instanceID = ''''
         then (None, w\<lparr>logs := logs w @ [LogErrorf ''no instanceID provided, %v'' err]\<rparr>)
         else
          (let mdsService = newMdsService config;
               agentInfo = \<lparr>InfoLang = Lang (Os config), InfoName = AgentName (Agent config),
                            InfoVersion = AgentVersion (Agent config),
                            InfoOs = OsName (Os config),
                            InfoOsVersion = OsVersion (Os config)\<rparr>;
               agentConfig = \<lparr>agentInfo = agentInfo, InstanceID = instanceID\<rparr>;
               cancelWaitDuration = 10000 * Millisecond;
               (sendCommandTaskPool, w1) =
                  NewPool (CommandWorkersLimit (Mds config)) cancelWaitDuration w;
               (cancelCommandTaskPool, w2) = NewPool CancelWorkersLimit cancelWaitDuration w1;
               orchestrationRoot =
                  pathJoin env [DefaultDataStorePath env, instanceID,
                                DefaultCommandRootDirName env,
                                OrchestrationRootDir (Agent config)];
               replyBuilder = (\<lambda>pluginID results s.
                  PrepareReplyPayload env pluginID (PrepareRuntimeStatuses env results)
                    (clock s) (AgentConfiguration.agentInfo agentConfig));
               statusReplyBuilder = (\<lambda>info resultStatus documentTraceOutput.
                  PrepareReplyPayloadToUpdateDocumentStatus env info resultStatus
                    documentTraceOutput);
               (stopPolicy, w3) = newStopPolicy w2;
               sendResp = (\<lambda>messageID pluginID results s.
                  let payloadDoc = replyBuilder pluginID results s
                  in processSendReply env messageID mdsService payloadDoc stopPolicy s);
               sendDocLevelResp = (\<lambda>messageID resultStatus documentTraceOutput s.
                  let payloadDoc = statusReplyBuilder agentInfo resultStatus documentTraceOutput
                  in processSendReply env messageID mdsService payloadDoc stopPolicy s)
           in (Some \<lparr>pContext = messageContext, pConfig = agentConfig,
                     pService = mdsService,
                     sendCommandPool = sendCommandTaskPool,
                     cancelCommandPool = cancelCommandTaskPool,
                     buildReply = replyBuilder,
                     sendResponse = sendResp,
                     sendDocLevelResponse = sendDocLevelResp,
                     orchestrationRootDir = orchestrationRoot,
                     processorStopPolicy = stopPolicy\<rparr>, w3)))"

subsection \<open>Shutdown and the resume of polling\<close>

text \<open>
  Modelled from the spec: \<open>Processor.Stop\<close> and the pool's \<open>ShutdownGracefully\<close> are not in
  this file of the repository. \<open>ShutdownGracefully(timeout)\<close> signals every running job,
  waits up to \<open>timeout\<close> for all of them to complete, and abandons the jobs still running
  past the deadline; it returns once the deadline or the full drain is reached, and all
  workers are released afterward. \<open>Stop\<close> calls it with \<open>hardStopTimeout\<close> on both pools in
  parallel and returns when both have returned. The results are the time the call took, the
  identifiers of the abandoned jobs, and the pool afterwards.
\<close>

definition ShutdownGracefully :: "Duration \<Rightarrow> Pool \<Rightarrow> Duration \<times> string list \<times> Pool" where
  "ShutdownGracefully timeout pool =
     (min (max 0 timeout) (foldr max (map snd (jobs pool)) 0),
      map fst (filter (\<lambda>job. timeout < snd job) (jobs pool)),
      pool\<lparr>jobs := []\<rparr>)"

definition Stop :: "('res, 'p) Processor \<Rightarrow> World \<Rightarrow> string list \<times> World" where
  "Stop p w =
     (let (t1, abandoned1, pool1) =
             ShutdownGracefully hardStopTimeout (pools w ! sendCommandPool p);
          (t2, abandoned2, pool2) =
             ShutdownGracefully hardStopTimeout (pools w ! cancelCommandPool p)
      in (abandoned1 @ abandoned2,
          w\<lparr>pools := (pools w)[sendCommandPool p := pool1, cancelCommandPool p := pool2],
            clock := clock w + max t1 t2\<rparr>))"






text \<open>
  Modelled from the spec: the scheduling of the poll loop is not in this file of the
  repository. A supervisor fires every \<open>pollMessageFrequencyMinutes\<close> minutes, counted from
  its start, and at each firing restarts the polling thread if it has died. \<open>nextResume\<close>
  is the first firing after the time of death; \<open>superviseAt\<close> is the thread as the
  supervisor leaves it at the time \<open>now\<close>.
\<close>

datatype PollThread = Polling | Died int

definition resumeInterval :: Duration where
  "resumeInterval = pollMessageFrequencyMinutes * Minute"

definition nextResume :: "int \<Rightarrow> int \<Rightarrow> int" where
  "nextResume start died = start + ((died - start) div resumeInterval + 1) * resumeInterval"

definition superviseAt :: "int \<Rightarrow> int \<Rightarrow> PollThread \<Rightarrow> PollThread" where
  "superviseAt start now th =
     (case th of
        Polling \<Rightarrow> Polling
      | Died d \<Rightarrow> if nextResume start d \<le> now then Polling else Died d)"

subsection \<open>Concrete inputs\<close>

text \<open>A state with nothing in it, a state holding one stop policy that has seen three
  errors, and collaborators with chosen results: \<open>idres\<close> is what \<open>platform.InstanceID\<close>
  returns, \<open>marshal\<close> is \<open>json.Marshal\<close>, \<open>send\<close> is the result of the transport for a
  payload.\<close>

definition emptyWorld :: World where
  "emptyWorld = \<lparr>logs = [], replies = [], policies = [], pools = [], clock = 0\<rparr>"

definition worldWithPolicy :: World where
  "worldWithPolicy =
     \<lparr>logs = [], replies = [],
      policies = [\<lparr>policyName = ''MessageProcessor'', MaximumErrorThreshold = 10,
                   window = 900000000000, errorCount = 3, unhealthyUntil = None\<rparr>],
      pools = [], clock = 0\<rparr>"

text \<open>\<open>path.Join\<close> on elements that are clean already: the non-empty elements, with a
  slash between them.\<close>

fun joinNonEmpty :: "string list \<Rightarrow> string" where
  "joinNonEmpty [] = []"
| "joinNonEmpty [x] = x"
| "joinNonEmpty (x # y # zs) = x @ ''/'' @ joinNonEmpty (y # zs)"

definition joinSlash :: "string list \<Rightarrow> string" where
  "joinSlash elems = joinNonEmpty (filter (\<lambda>e. e \<noteq> []) elems)"

definition exampleEnv ::
  "string \<times> error option \<Rightarrow> (string \<Rightarrow> error + string) \<Rightarrow> (string \<Rightarrow> error option)
     \<Rightarrow> (nat, nat, string) Env" where
  "exampleEnv idres marshal send =
     \<lparr>platformInstanceID = idres,
      DefaultDataStorePath = ''/var/lib/amazon/ssm'',
      DefaultCommandRootDirName = ''document'',
      pathJoin = joinSlash,
      PrepareRuntimeStatuses = (\<lambda>r. r),
      PrepareReplyPayload = (\<lambda>pluginID st now info. pluginID),
      PrepareReplyPayloadToUpdateDocumentStatus = (\<lambda>info resultStatus trace. resultStatus),
      jsonMarshal = marshal,
      jsonIndent = (\<lambda>s. s),
      SendReply = (\<lambda>svc messageID payload. send payload)\<rparr>"

definition exampleContext :: Context where
  "exampleContext = \<lparr>ctxTags = [], ctxAppConfig = exampleConfig 5 20000\<rparr>"

definition marshalOk :: "string \<Rightarrow> error + string" where
  "marshalOk payloadDoc = Inr payloadDoc"

definition marshalFails :: "string \<Rightarrow> error + string" where
  "marshalFails payloadDoc = Inl ''json: unsupported value: NaN''"

definition sendOk :: "string \<Rightarrow> error option" where
  "sendOk payload = None"

definition sendFails :: "string \<Rightarrow> error option" where
  "sendFails payload = Some ''RequestError''"

definition envMarshalFails :: "(nat, nat, string) Env" where
  "envMarshalFails = exampleEnv (''i-0abc'', None) marshalFails sendOk"

definition envSendOk :: "(nat, nat, string) Env" where
  "envSendOk = exampleEnv (''i-0abc'', None) marshalOk sendOk"

definition envSendFails :: "(nat, nat, string) Env" where
  "envSendFails = exampleEnv (''i-0abc'', None) marshalOk sendFails"

definition envIdentityError :: "(nat, nat, string) Env" where
  "envIdentityError = exampleEnv (''i-0abc'', Some ''metadata unavailable'') marshalOk sendOk"

definition exampleService :: Service where
  "exampleService = newMdsService (exampleConfig 5 20000)"


section \<open>Properties\<close>

lemmas example_defs =
  exampleEnv_def envMarshalFails_def envSendOk_def envSendFails_def envIdentityError_def
  marshalOk_def marshalFails_def sendOk_def sendFails_def exampleService_def

subsection \<open>Sending a reply\<close>

text \<open>
  Claim C1 says that a reply payload whose marshalling fails aborts the send: \<open>SendReply\<close>
  is not called. The function logs the failure and has no \<open>return\<close> there. At the message
  \<open>m1\<close> and a payload that \<open>json.Marshal\<close> rejects, the failure is logged and the
  transport is still called once, with the empty string as payload; the stop policy is as
  before.
\<close>

theorem processSendReply_marshal_failure_still_sends:
  "processSendReply envMarshalFails ''m1'' exampleService ''doc'' 0 worldWithPolicy
   = worldWithPolicy
       \<lparr>logs := [LogError ''could not marshal reply payload!'' ''json: unsupported value: NaN'',
                 LogInfo ''Sending reply '' ''''],
        replies := [(''m1'', '''')]\<rparr>"
  by (simp add: processSendReply_def example_defs worldWithPolicy_def)

text \<open>
  Claim C2, as stated: when marshalling succeeds and \<open>SendReply\<close> succeeds, a success is
  recorded into the stop policy. It is not: at a policy that has counted three errors, a
  successful send leaves the policy as it was, which is not the policy after
  \<open>RecordSuccess\<close>.
\<close>

theorem processSendReply_success_not_recorded:
  "policies (processSendReply envSendOk ''m1'' exampleService ''doc'' 0 worldWithPolicy) ! 0
     = policies worldWithPolicy ! 0 \<and>
   policies (processSendReply envSendOk ''m1'' exampleService ''doc'' 0 worldWithPolicy) ! 0
     \<noteq> RecordSuccess (policies worldWithPolicy ! 0)"
  by (simp add: processSendReply_def example_defs worldWithPolicy_def RecordSuccess_def)

text \<open>
  Claim C2, amended. For every call of \<open>processSendReply\<close> in which marshalling succeeds:
  if \<open>SendReply\<close> returns an error, the error is handed to \<open>HandleAwsError\<close> with the stop
  policy, which records a failure there; if \<open>SendReply\<close> succeeds, the stop policies
  are left as they were.
\<close>

theorem processSendReply_records_failure_only:
  assumes "jsonMarshal env payloadDoc = Inr b"
  shows "(SendReply env svc m b = None \<longrightarrow>
            policies (processSendReply env m svc payloadDoc pol w) = policies w) \<and>
         (\<forall>e. SendReply env svc m b = Some e \<longrightarrow>
            processSendReply env m svc payloadDoc pol w
              = HandleAwsError e pol
                  (w\<lparr>logs := logs w @ [LogInfo ''Sending reply '' (jsonIndent env b)],
                     replies := replies w @ [(m, b)]\<rparr>) \<and>
            policies (processSendReply env m svc payloadDoc pol w)
              = (policies w)[pol := RecordFailure (clock w) (policies w ! pol)])"
  using assms by (simp add: processSendReply_def HandleAwsError_def)

theorem processSendReply_records_failure_only_witness:
  "jsonMarshal envSendFails ''doc'' = Inr ''doc'' \<and>
   SendReply envSendFails exampleService ''m1'' ''doc'' = Some ''RequestError'' \<and>
   map errorCount
     (policies (processSendReply envSendFails ''m1'' exampleService ''doc'' 0 worldWithPolicy))
     = [4]"
  using processSendReply_records_failure_only
    [of envSendFails "''doc''" "''doc''" exampleService "''m1''" 0 worldWithPolicy]
  by (simp add: example_defs worldWithPolicy_def RecordFailure_def expire_def HandleAwsError_def)

subsection \<open>Constructing the processor\<close>

text \<open>
  Claim C4. \<open>NewProcessor\<close> returns nil if and only if the instance identifier is the empty
  string, whatever error \<open>platform.InstanceID\<close> returned with it: with a non-empty
  identifier and a non-nil error, a processor is constructed.
\<close>

theorem NewProcessor_nil_iff:
  assumes "platformInstanceID env = (instanceID, err)"
  shows "(fst (NewProcessor env ctx w) = None) = (instanceID = '''')"
  using assms by (simp add: NewProcessor_def Let_def split: prod.splits)

theorem NewProcessor_nil_iff_witness:
  "platformInstanceID envIdentityError = (''i-0abc'', Some ''metadata unavailable'') \<and>
   fst (NewProcessor envIdentityError exampleContext emptyWorld) \<noteq> None"
  using NewProcessor_nil_iff
    [of envIdentityError "''i-0abc''" "Some ''metadata unavailable''" exampleContext
        emptyWorld]
  by (simp add: example_defs)

lemma NewProcessor_Some:
  assumes "NewProcessor env ctx w = (Some p, w')"
  shows "pools w' = pools w @
           [\<lparr>maxWorkers = CommandWorkersLimit (Mds (ctxAppConfig ctx)),
             cancelWaitDuration = 10000 * Millisecond, jobs = []\<rparr>,
            \<lparr>maxWorkers = CancelWorkersLimit,
             cancelWaitDuration = 10000 * Millisecond, jobs = []\<rparr>]"
    and "sendCommandPool p = length (pools w)"
    and "cancelCommandPool p = length (pools w) + 1"
    and "policies w' = policies w @
           [\<lparr>policyName = name, MaximumErrorThreshold = stopPolicyErrorThreshold,
             window = stopPolicyWindow, errorCount = 0, unhealthyUntil = None\<rparr>]"
    and "processorStopPolicy p = length (policies w)"
    and "sendResponse p = (\<lambda>m pl r s.
           processSendReply env m (pService p) (buildReply p pl r s) (processorStopPolicy p) s)"
    and "sendDocLevelResponse p = (\<lambda>m rs t s.
           processSendReply env m (pService p)
             (PrepareReplyPayloadToUpdateDocumentStatus env (agentInfo (pConfig p)) rs t)
             (processorStopPolicy p) s)"
  using assms
  by (auto simp add: NewProcessor_def NewPool_def newStopPolicy_def NewStopPolicy_def
      With_def Let_def split: prod.splits if_splits)

lemma NewProcessor_example:
  "NewProcessor envSendFails exampleContext emptyWorld
   = (Some (the (fst (NewProcessor envSendFails exampleContext emptyWorld))),
      snd (NewProcessor envSendFails exampleContext emptyWorld))"
  by (simp add: NewProcessor_def example_defs Let_def split: prod.splits)

text \<open>
  Claim C5. Whenever \<open>NewProcessor\<close> constructs a processor it creates exactly two worker
  pools, and they are distinct objects: the pool for commands, with
  \<open>config.Mds.CommandWorkersLimit\<close> workers, and the pool for cancellations, with
  \<open>CancelWorkersLimit = 3\<close> workers whatever the configuration is.
\<close>

theorem NewProcessor_two_pools:
  assumes "NewProcessor env ctx w = (Some p, w')"
  shows "sendCommandPool p \<noteq> cancelCommandPool p \<and>
         length (pools w') = length (pools w) + 2 \<and>
         take (length (pools w)) (pools w') = pools w \<and>
         sendCommandPool p = length (pools w) \<and>
         cancelCommandPool p = length (pools w) + 1 \<and>
         maxWorkers (pools w' ! sendCommandPool p)
           = CommandWorkersLimit (Mds (ctxAppConfig ctx)) \<and>
         maxWorkers (pools w' ! cancelCommandPool p) = CancelWorkersLimit \<and>
         CancelWorkersLimit = 3"
  using NewProcessor_Some(1,2,3) [OF assms]
  by (simp add: nth_append CancelWorkersLimit_def)

theorem NewProcessor_two_pools_witness:
  "sendCommandPool (the (fst (NewProcessor envSendFails exampleContext emptyWorld))) = 0 \<and>
   cancelCommandPool (the (fst (NewProcessor envSendFails exampleContext emptyWorld))) = 1 \<and>
   map maxWorkers (pools (snd (NewProcessor envSendFails exampleContext emptyWorld))) = [5, 3]"
  using NewProcessor_two_pools [OF NewProcessor_example]
  by (simp add: NewProcessor_def NewPool_def newStopPolicy_def NewStopPolicy_def Let_def
      example_defs exampleContext_def exampleConfig_def emptyWorld_def With_def
      CancelWorkersLimit_def split: prod.splits)

subsection \<open>Topic prefixes\<close>

text \<open>
  Claim C10. The two topic prefixes are distinct, non-empty strings, neither is a prefix of
  the other, and no topic starts with both: the classification of a message topic into
  SendCommand or CancelCommand by \<open>strings.HasPrefix\<close> is unambiguous.
\<close>

theorem topic_prefixes_unambiguous:
  "SendCommandTopicPrefix \<noteq> CancelCommandTopicPrefix \<and>
   SendCommandTopicPrefix \<noteq> [] \<and> CancelCommandTopicPrefix \<noteq> [] \<and>
   \<not> HasPrefix CancelCommandTopicPrefix SendCommandTopicPrefix \<and>
   \<not> HasPrefix SendCommandTopicPrefix CancelCommandTopicPrefix \<and>
   (\<forall>topic. \<not> (HasPrefix topic SendCommandTopicPrefix \<and>
                 HasPrefix topic CancelCommandTopicPrefix))"
proof -
  have ne: "SendCommandTopicPrefix \<noteq> CancelCommandTopicPrefix"
    by (simp add: SendCommandTopicPrefix_def CancelCommandTopicPrefix_def)
  have n1: "SendCommandTopicPrefix \<noteq> []" and n2: "CancelCommandTopicPrefix \<noteq> []"
    by (simp_all add: SendCommandTopicPrefix_def CancelCommandTopicPrefix_def)
  have p1: "\<not> HasPrefix CancelCommandTopicPrefix SendCommandTopicPrefix"
    by (simp add: HasPrefix_def SendCommandTopicPrefix_def CancelCommandTopicPrefix_def)
  have p2: "\<not> HasPrefix SendCommandTopicPrefix CancelCommandTopicPrefix"
    by (simp add: HasPrefix_def SendCommandTopicPrefix_def CancelCommandTopicPrefix_def)
  have both: "\<not> (HasPrefix topic SendCommandTopicPrefix \<and>
                  HasPrefix topic CancelCommandTopicPrefix)" for topic
  proof
    assume h: "HasPrefix topic SendCommandTopicPrefix \<and>
               HasPrefix topic CancelCommandTopicPrefix"
    have ls: "length SendCommandTopicPrefix = 20"
      by (simp add: SendCommandTopicPrefix_def)
    have lc: "length CancelCommandTopicPrefix = 22"
      by (simp add: CancelCommandTopicPrefix_def)
    have "take (length SendCommandTopicPrefix) topic = SendCommandTopicPrefix"
      using h unfolding HasPrefix_def by blast
    then have s: "take 20 topic = SendCommandTopicPrefix"
      by (simp only: ls)
    have "take (length CancelCommandTopicPrefix) topic = CancelCommandTopicPrefix"
      using h unfolding HasPrefix_def by blast
    then have c: "take 22 topic = CancelCommandTopicPrefix"
      by (simp only: lc)
    have "take 20 (take 22 topic) = take 20 topic" by simp
    then have "take 20 CancelCommandTopicPrefix = SendCommandTopicPrefix"
      using s c by simp
    then show False
      by (simp add: SendCommandTopicPrefix_def CancelCommandTopicPrefix_def)
  qed
  show ?thesis using ne n1 n2 p1 p2 both by blast
qed

subsection \<open>The connection timeout of the MDS service\<close>

lemma wrap64_id:
  "- 9223372036854775808 \<le> x \<Longrightarrow> x < 9223372036854775808 \<Longrightarrow> wrap64 x = x"
  by (simp add: wrap64_def)

lemma connectionTimeout_in_range:
  assumes "- 9223372036854 \<le> StopTimeoutMillis (Mds config)"
      and "StopTimeoutMillis (Mds config) \<le> 9223372036854"
  shows "svcConnectionTimeout (newMdsService config) =
         StopTimeoutMillis (Mds config) * 1000000"
proof -
  let ?m = "StopTimeoutMillis (Mds config)"
  have a: "wrap64 ?m = ?m" using assms by (intro wrap64_id) simp_all
  have b: "wrap64 (?m * 1000000) = ?m * 1000000" using assms by (intro wrap64_id) simp_all
  show ?thesis by (simp add: newMdsService_def NewService_def Millisecond_def a b)
qed

text \<open>
  Claim C9, as stated: for every configuration the connection timeout built by
  \<open>newMdsService\<close> is strictly less than the 15 minute resume interval. It fails for a
  configuration whose \<open>StopTimeoutMillis\<close> is 900000: the timeout is then 15 minutes.
\<close>

theorem connectionTimeout_not_below_interval:
  "\<not> svcConnectionTimeout (newMdsService (exampleConfig 5 900000))
       < pollMessageFrequencyMinutes * Minute"
  by (simp add: newMdsService_def NewService_def exampleConfig_def wrap64_def
      pollMessageFrequencyMinutes_def Minute_def Second_def Millisecond_def)

text \<open>
  Claim C9, amended. \<open>newMdsService\<close> copies the configured value without a check: the
  timeout is \<open>StopTimeoutMillis\<close> milliseconds, and, for every configuration whose value
  in nanoseconds fits 64 bits, it is strictly less than the 15 minute interval exactly
  when \<open>StopTimeoutMillis < 900000\<close>.
\<close>

theorem connectionTimeout_below_interval_iff:
  assumes "- 9223372036854 \<le> StopTimeoutMillis (Mds config)"
      and "StopTimeoutMillis (Mds config) \<le> 9223372036854"
  shows "svcConnectionTimeout (newMdsService config)
           = StopTimeoutMillis (Mds config) * Millisecond \<and>
         (svcConnectionTimeout (newMdsService config) < pollMessageFrequencyMinutes * Minute)
           = (StopTimeoutMillis (Mds config) < 900000)"
  using connectionTimeout_in_range [OF assms]
  by (simp add: pollMessageFrequencyMinutes_def Minute_def Second_def Millisecond_def)

theorem connectionTimeout_below_interval_iff_witness:
  "svcConnectionTimeout (newMdsService (exampleConfig 5 20000)) = 20000 * Millisecond \<and>
   svcConnectionTimeout (newMdsService (exampleConfig 5 20000))
     < pollMessageFrequencyMinutes * Minute"
  using connectionTimeout_below_interval_iff [of "exampleConfig 5 20000"]
  by (simp add: exampleConfig_def)

subsection \<open>The stop policy of the processor\<close>

lemma expire_closed: "unhealthyUntil p = None \<Longrightarrow> expire now p = p"
  by (simp add: expire_def)


lemma expire_const:
  "policyName (expire now p) = policyName p"
  "MaximumErrorThreshold (expire now p) = MaximumErrorThreshold p"
  "window (expire now p) = window p"
  by (simp_all add: expire_def split: option.splits)



lemma RecordFailure_const:
  "policyName (RecordFailure t p) = policyName p"
  "MaximumErrorThreshold (RecordFailure t p) = MaximumErrorThreshold p"
  "window (RecordFailure t p) = window p"
  by (simp_all add: RecordFailure_def Let_def expire_const)

lemma RecordFailure_closed:
  assumes "unhealthyUntil p = None"
  shows "errorCount (RecordFailure t p) = errorCount p + 1"
    and "unhealthyUntil (RecordFailure t p)
           = (if errorCount p + 1 = MaximumErrorThreshold p then Some (t + window p) else None)"
  using assms by (simp_all add: RecordFailure_def Let_def expire_closed)


lemma failures_snoc: "failures (ts @ [t]) p = RecordFailure t (failures ts p)"
  by (simp add: failures_def)


lemma failures_const:
  "policyName (failures ts p) = policyName p \<and>
   MaximumErrorThreshold (failures ts p) = MaximumErrorThreshold p \<and>
   window (failures ts p) = window p"
proof (induction ts rule: rev_induct)
  case Nil
  show ?case by (simp add: failures_def)
next
  case (snoc t ts)
  then show ?case by (simp add: failures_snoc RecordFailure_const)
qed

lemma failures_below:
  assumes "errorCount p = 0" "unhealthyUntil p = None"
  shows "int (length ts) < MaximumErrorThreshold p \<Longrightarrow>
         unhealthyUntil (failures ts p) = None \<and> errorCount (failures ts p) = int (length ts)"
proof (induction ts rule: rev_induct)
  case Nil
  then show ?case using assms by (simp add: failures_def)
next
  case (snoc t ts)
  then have h: "unhealthyUntil (failures ts p) = None"
    "errorCount (failures ts p) = int (length ts)"
    by simp_all
  have "errorCount (failures ts p) + 1 \<noteq> MaximumErrorThreshold (failures ts p)"
    using snoc.prems h by (simp add: failures_const)
  then show ?case using h by (simp add: failures_snoc RecordFailure_closed)
qed

lemma failures_at:
  assumes "errorCount p = 0" "unhealthyUntil p = None"
      and "int (length ts) = MaximumErrorThreshold p" "ts \<noteq> []"
  shows "unhealthyUntil (failures ts p) = Some (last ts + window p) \<and>
         errorCount (failures ts p) = MaximumErrorThreshold p"
proof -
  obtain us t where ts: "ts = us @ [t]" using assms(4) by (metis rev_exhaust)
  have "int (length us) < MaximumErrorThreshold p" using assms(3) ts by simp
  then have h: "unhealthyUntil (failures us p) = None"
    "errorCount (failures us p) = int (length us)"
    using failures_below [OF assms(1,2)] by simp_all
  have "errorCount (failures us p) + 1 = MaximumErrorThreshold (failures us p)"
    using assms(3) ts h by (simp add: failures_const)
  then show ?thesis
    using h(1) assms(3) by (simp add: ts failures_snoc RecordFailure_closed failures_const)
qed




lemma RecordFailure_expired:
  assumes "errorCount p = 0" "unhealthyUntil p = None"
      and "policyName q = policyName p" "MaximumErrorThreshold q = MaximumErrorThreshold p"
      and "window q = window p" "unhealthyUntil q = Some e" "e < t"
  shows "RecordFailure t q = RecordFailure t p"
proof -
  have "expire t q = p" using assms by (simp add: expire_def)
  moreover have "expire t p = p" using assms(2) by (rule expire_closed)
  ultimately show ?thesis by (simp add: RecordFailure_def)
qed

text \<open>Once the window has ended the policy counts anew: ten failures that start after
  the end of the window open the next one, from the last of them.\<close>

lemma failures_after_expiry:
  assumes "errorCount p = 0" "unhealthyUntil p = None" "0 < MaximumErrorThreshold p"
      and "int (length ts) = MaximumErrorThreshold p"
      and "int (length vs) = MaximumErrorThreshold p"
      and "last ts + window p < hd vs"
  shows "unhealthyUntil (failures (ts @ vs) p) = Some (last vs + window p)"
proof -
  have ts: "ts \<noteq> []" and vs: "vs \<noteq> []" using assms(3,4,5) by auto
  obtain v vs' where v: "vs = v # vs'" using vs by (cases vs) auto
  have e: "unhealthyUntil (failures ts p) = Some (last ts + window p)"
    using failures_at [OF assms(1,2,4) ts] by simp
  have "RecordFailure v (failures ts p) = RecordFailure v p"
    using RecordFailure_expired [OF assms(1,2) _ _ _ e] assms(6) v
    by (simp add: failures_const)
  then have "failures (ts @ vs) p = failures vs p"
    by (simp add: failures_def v)
  then show ?thesis using failures_at [OF assms(1,2,5) vs] by simp
qed






subsection \<open>One stop policy for replies and polling\<close>








subsection \<open>Shutdown within the hard deadline\<close>

lemma foldr_max_nonneg: "0 \<le> foldr max (xs :: int list) 0"
  by (induction xs) simp_all

lemma ShutdownGracefully_time:
  "0 \<le> fst (ShutdownGracefully timeout pool) \<and>
   (0 \<le> timeout \<longrightarrow> fst (ShutdownGracefully timeout pool) \<le> timeout)"
  by (simp add: ShutdownGracefully_def foldr_max_nonneg)

lemma hardStopTimeout_nonneg: "0 \<le> hardStopTimeout"
  by (simp add: hardStopTimeout_def Second_def Millisecond_def)

text \<open>
  Claim C6. The hard-stop deadline is the constant 4 seconds. \<open>Stop\<close> returns after at most
  that time, whatever jobs the two pools are running and however many, and the jobs it
  abandons are those that needed more than the deadline to finish.
\<close>

theorem Stop_within_hardStopTimeout:
  "hardStopTimeout = 4 * Second \<and> Second = 1000000000 \<and>
   clock w \<le> clock (snd (Stop p w)) \<and>
   clock (snd (Stop p w)) \<le> clock w + hardStopTimeout \<and>
   set (fst (Stop p w)) =
     {i. \<exists>r. ((i, r) \<in> set (jobs (pools w ! sendCommandPool p)) \<or>
               (i, r) \<in> set (jobs (pools w ! cancelCommandPool p))) \<and> hardStopTimeout < r}"
proof -
  let ?a = "ShutdownGracefully hardStopTimeout (pools w ! sendCommandPool p)"
  let ?b = "ShutdownGracefully hardStopTimeout (pools w ! cancelCommandPool p)"
  have c: "clock (snd (Stop p w)) = clock w + max (fst ?a) (fst ?b)"
    by (simp add: Stop_def Let_def split: prod.splits)
  have ta: "0 \<le> fst ?a" "fst ?a \<le> hardStopTimeout"
    using ShutdownGracefully_time [of hardStopTimeout] hardStopTimeout_nonneg by simp_all
  have tb: "0 \<le> fst ?b" "fst ?b \<le> hardStopTimeout"
    using ShutdownGracefully_time [of hardStopTimeout] hardStopTimeout_nonneg by simp_all
  have t1: "clock w \<le> clock (snd (Stop p w))" using c ta tb by simp
  have t2: "clock (snd (Stop p w)) \<le> clock w + hardStopTimeout" using c ta tb by simp
  have ab: "fst (Stop p w) = fst (snd ?a) @ fst (snd ?b)"
    by (simp add: Stop_def Let_def split: prod.splits)
  have s: "set (fst (Stop p w)) =
     {i. \<exists>r. ((i, r) \<in> set (jobs (pools w ! sendCommandPool p)) \<or>
               (i, r) \<in> set (jobs (pools w ! cancelCommandPool p))) \<and> hardStopTimeout < r}"
    unfolding ab by (auto simp add: ShutdownGracefully_def image_iff)
  have h: "hardStopTimeout = 4 * Second" "Second = 1000000000"
    by (simp_all add: hardStopTimeout_def Second_def Millisecond_def)
  show ?thesis using h t1 t2 s by blast
qed

subsection \<open>The resume of polling\<close>

lemma resumeInterval_value: "resumeInterval = 900000000000"
  by (simp add: resumeInterval_def pollMessageFrequencyMinutes_def Minute_def Second_def
      Millisecond_def)

lemma nextResume_bounds:
  "died < nextResume start died \<and> nextResume start died \<le> died + resumeInterval"
proof -
  let ?r = "900000000000::int"
  let ?x = "died - start"
  have m: "?x = ?x div ?r * ?r + ?x mod ?r" by simp
  have m0: "0 \<le> ?x mod ?r" and m1: "?x mod ?r < ?r" by simp_all
  have n: "nextResume start died = start + ?x div ?r * ?r + ?r"
    by (simp add: nextResume_def resumeInterval_value algebra_simps)
  show ?thesis unfolding n resumeInterval_value using m m0 m1 by linarith
qed

text \<open>
  Claim C8. The resume interval is the constant 15 minutes
  (\<open>pollMessageFrequencyMinutes\<close>). A polling thread that died is restarted at the next
  firing of the supervisor, which comes after its death and at most 15 minutes later: from
  15 minutes after any death on, the thread polls again.
\<close>

theorem polling_resumes_within_interval:
  assumes "died + resumeInterval \<le> now"
  shows "pollMessageFrequencyMinutes = 15 \<and> resumeInterval = 15 * Minute \<and>
         died < nextResume start died \<and> nextResume start died \<le> died + resumeInterval \<and>
         superviseAt start now (Died died) = Polling"
proof -
  have "nextResume start died \<le> now" using nextResume_bounds [of died start] assms by linarith
  then have "superviseAt start now (Died died) = Polling" by (simp add: superviseAt_def)
  then show ?thesis using nextResume_bounds [of died start]
    by (simp add: pollMessageFrequencyMinutes_def resumeInterval_def)
qed

theorem polling_resumes_within_interval_witness:
  "(100 :: int) + resumeInterval \<le> 900000000100 \<and>
   nextResume 0 100 = 900000000000 \<and>
   superviseAt 0 900000000100 (Died 100) = Polling"
  using polling_resumes_within_interval [where died = 100 and now = 900000000100 and start = 0]
  by (simp add: resumeInterval_value nextResume_def)

end
